theory Spec2Isabelle
  imports Complex_Main
begin

section \<open>Values shared by the services and the store\<close>

text \<open>
  JavaScript exceptions are values here. Every \<^verbatim>\<open>throw new Error(msg)\<close> of the source is
  \<open>Error msg\<close>; reading \<^verbatim>\<open>.fields\<close> of a \<^verbatim>\<open>null\<close> \<^verbatim>\<open>extractedData\<close> is the engine's
  \<open>TypeError\<close>. A function that can throw returns \<open>error + 'a\<close>, with \<open>Inl\<close> the exception.
\<close>

datatype error = Error (message: string) | TypeError (message: string)

text \<open>A \<^verbatim>\<open>Blob\<close> and a \<^verbatim>\<open>File\<close>: only the attributes the code reads.\<close>

record blob =
  blob_type :: string
  blob_size :: nat

record jsfile =
  file_name :: string
  file_type :: string
  file_size :: nat

text \<open>\<^verbatim>\<open>new File([blob], name, { type })\<close>\<close>

definition new_File :: "blob \<Rightarrow> string \<Rightarrow> string \<Rightarrow> jsfile" where
  "new_File b nm ty = \<lparr>file_name = nm, file_type = ty, file_size = blob_size b\<rparr>"

definition blob_of_file :: "jsfile \<Rightarrow> blob" where
  "blob_of_file f = \<lparr>blob_type = file_type f, blob_size = file_size f\<rparr>"

text \<open>Template literals print numbers in decimal.\<close>

fun show_nat :: "nat \<Rightarrow> string" where
  "show_nat n =
     (if n < 10 then [''0123456789'' ! n]
      else show_nat (n div 10) @ [''0123456789'' ! (n mod 10)])"

declare show_nat.simps [simp del]

text \<open>
  The operator \<^verbatim>\<open>a || d\<close> yields \<open>d\<close> when \<open>a\<close> is falsy: \<^verbatim>\<open>undefined\<close>, \<^verbatim>\<open>null\<close>
  (both \<open>None\<close>), the empty string, or the number \<open>0\<close>. Objects are always truthy.
\<close>

definition or_string :: "string option \<Rightarrow> string \<Rightarrow> string" where
  "or_string a d = (case a of None \<Rightarrow> d | Some s \<Rightarrow> if s = [] then d else s)"

definition or_number :: "real option \<Rightarrow> real \<Rightarrow> real" where
  "or_number a d = (case a of None \<Rightarrow> d | Some x \<Rightarrow> if x = 0 then d else x)"

definition or_page :: "nat option \<Rightarrow> nat \<Rightarrow> nat" where
  "or_page a d = (case a of None \<Rightarrow> d | Some n \<Rightarrow> if n = 0 then d else n)"

section \<open>The provider payload and the Field record\<close>

record bbox =
  box_x :: real
  box_y :: real
  box_width :: real
  box_height :: real

text \<open>
  One entry of the provider's \<^verbatim>\<open>fields\<close> array, with the attributes at the types of the
  prompt contract; \<open>None\<close> is an attribute that is missing (or \<^verbatim>\<open>null\<close>).
\<close>

record raw_field =
  r_label :: "string option"
  r_value :: "string option"
  r_type :: "string option"
  r_confidence :: "real option"
  r_boundingBox :: "bbox option"

record raw_data =
  rd_fields :: "raw_field list option"
  rd_formTitle :: "string option"
  rd_summary :: "string option"

text \<open>
  A Field as \<^verbatim>\<open>formatExtractedData\<close> builds it, and as the store keeps it once the
  \<^verbatim>\<open>page\<close> key is added. \<open>boundingBox = None\<close> is \<^verbatim>\<open>null\<close> or a missing key.
\<close>

record formatted_field =
  fid :: string
  label :: string
  fvalue :: string
  ftype :: string
  confidence :: real
  verified :: bool
  boundingBox :: "bbox option"

record field = formatted_field +
  page :: nat

record formatted_data =
  fd_formTitle :: "string option"
  fd_fields :: "formatted_field list"
  fd_extractedAt :: string

record extracted_data =
  ed_formTitle :: "string option"
  ed_fields :: "field list"
  ed_extractedAt :: string

record history_entry =
  h_id :: nat
  h_filename :: string
  h_extractedAt :: string
  h_fieldsCount :: nat
  h_formTitle :: "string option"
  h_provider :: string

section \<open>FormProcessingService\<close>

record validation =
  valid :: bool
  v_error :: "string option"

definition maxSize :: nat where
  "maxSize = 10 * 1024 * 1024"

definition allowedTypes :: "string list" where
  "allowedTypes =
     [''image/jpeg'', ''image/jpg'', ''image/png'', ''image/webp'', ''application/pdf'']"

definition validateImageFile :: "jsfile option \<Rightarrow> validation" where
  "validateImageFile fl =
     (case fl of
        None \<Rightarrow> \<lparr>valid = False, v_error = Some ''No file provided''\<rparr>
      | Some f \<Rightarrow>
          if file_type f \<notin> set allowedTypes then
            \<lparr>valid = False,
             v_error = Some ''Invalid file type. Please upload JPG, PNG, WebP images or PDF files.''\<rparr>
          else if file_size f > maxSize then
            \<lparr>valid = False, v_error = Some ''File too large. Maximum size is 10MB.''\<rparr>
          else \<lparr>valid = True, v_error = None\<rparr>)"

definition isPDF_file :: "jsfile \<Rightarrow> bool" where
  "isPDF_file f = (file_type f = ''application/pdf'')"

text \<open>
  The map callback of \<^verbatim>\<open>formatExtractedData\<close>: one raw entry at position \<open>index\<close> of
  page \<open>pageNumber\<close>.
\<close>

definition format_field :: "nat \<Rightarrow> nat \<Rightarrow> raw_field \<Rightarrow> formatted_field" where
  "format_field pageNumber index fld =
     \<lparr>fid = ''field_'' @ show_nat index @ ''_'' @ show_nat pageNumber,
      label = or_string (r_label fld) (''Field '' @ show_nat (index + 1)),
      fvalue = or_string (r_value fld) [],
      ftype = or_string (r_type fld) ''text'',
      confidence = or_number (r_confidence fld) 0.8,
      verified = False,
      boundingBox = r_boundingBox fld\<rparr>"

text \<open>
  \<^verbatim>\<open>formatExtractedData(rawData, pageNumber)\<close>; \<open>now\<close> is what \<^verbatim>\<open>new Date().toISOString()\<close>
  reads. The spread keeps the payload's \<^verbatim>\<open>formTitle\<close> and drops \<^verbatim>\<open>summary\<close>.
\<close>

definition formatExtractedData :: "raw_data option \<Rightarrow> nat \<Rightarrow> string \<Rightarrow> formatted_data" where
  "formatExtractedData rawData pageNumber now =
     (case rawData of
        None \<Rightarrow> \<lparr>fd_formTitle = Some ''Unknown Form'', fd_fields = [], fd_extractedAt = now\<rparr>
      | Some rd \<Rightarrow>
          (case rd_fields rd of
             None \<Rightarrow> \<lparr>fd_formTitle = Some ''Unknown Form'', fd_fields = [], fd_extractedAt = now\<rparr>
           | Some fs \<Rightarrow>
               \<lparr>fd_formTitle = rd_formTitle rd,
                fd_fields = map (\<lambda>(index, fld). format_field pageNumber index fld) (enumerate 0 fs),
                fd_extractedAt = now\<rparr>))"

section \<open>AIProviderService\<close>

text \<open>
  The world outside the store: pdf.js (page count, rendering of one page to a PNG blob),
  the vision backends, the credentials, the provider the service singleton currently
  routes to, the object-URL allocator and the clock. Each asynchronous call is a function
  giving its outcome; a backend call is indexed by the page it is made for, so that the
  same image may succeed once and fail later. The clock is read at named program points.
\<close>

datatype clock_point = AtFormat nat | AtPublish nat | AtFinal | AtHistory

record env =
  pdf_numPages :: "jsfile \<Rightarrow> error + nat"
  pdf_renderPage :: "jsfile \<Rightarrow> nat \<Rightarrow> error + blob"
  service_extractFormFields :: "string \<Rightarrow> nat \<Rightarrow> jsfile \<Rightarrow> error + raw_data option"
  isConfigured :: "string \<Rightarrow> bool"
  currentProvider :: string
  createObjectURL :: "blob \<Rightarrow> string"
  toISOString :: "clock_point \<Rightarrow> string"
  Date_now :: nat

record provider =
  p_name :: string
  p_description :: string
  p_cost :: string

text \<open>The \<^verbatim>\<open>providers\<close> table of the constructor, in declaration order.\<close>

definition providers :: "(string \<times> provider) list" where
  "providers =
     [(''gpt-4o'', \<lparr>p_name = ''GPT-4o'', p_description = ''OpenAI GPT-4 with Vision'',
                    p_cost = ''Paid ($0.01-0.03/image)''\<rparr>),
      (''gemini'', \<lparr>p_name = ''Gemini 2.5'', p_description = ''Google Gemini Pro Vision'',
                    p_cost = ''Free (60 req/min)''\<rparr>),
      (''claude'', \<lparr>p_name = ''Claude 3.5'', p_description = ''Anthropic Claude Sonnet'',
                    p_cost = ''Paid (~$0.02/image)''\<rparr>)]"

definition priorityOrder :: "string list" where
  "priorityOrder = [''gemini'', ''gpt-4o'', ''claude'']"

text \<open>The \<^verbatim>\<open>for ... of\<close> loop of \<^verbatim>\<open>getDefaultProvider\<close>: the first configured key, if any.\<close>

fun first_configured :: "(string \<Rightarrow> bool) \<Rightarrow> string list \<Rightarrow> string option" where
  "first_configured cfg [] = None"
| "first_configured cfg (p # ps) = (if cfg p then Some p else first_configured cfg ps)"

definition getDefaultProvider :: "(string \<Rightarrow> bool) \<Rightarrow> string" where
  "getDefaultProvider cfg =
     (case first_configured cfg priorityOrder of Some p \<Rightarrow> p | None \<Rightarrow> ''gpt-4o'')"

record provider_info =
  pi_key :: string
  pi_name :: string
  pi_configured :: bool

definition getProviderInfo :: "env \<Rightarrow> string \<Rightarrow> provider_info option" where
  "getProviderInfo e providerKey =
     (case map_of providers providerKey of
        None \<Rightarrow> None
      | Some p \<Rightarrow>
          Some \<lparr>pi_key = providerKey, pi_name = p_name p,
                pi_configured = isConfigured e providerKey\<rparr>)"

text \<open>
  \<^verbatim>\<open>AIProviderService.extractFormFields\<close>: looks the current provider up in the table
  (\<^verbatim>\<open>getCurrentService\<close>), refuses an unconfigured provider, otherwise hands the image to
  the current backend and rethrows what it throws.
\<close>

definition not_configured_message :: "string \<Rightarrow> string" where
  "not_configured_message nm =
     nm @ '' is not configured. Please add the API key to your .env file. '' @
     ''Alternatively, try another provider from the dropdown.''"

definition extractFormFields :: "env \<Rightarrow> nat \<Rightarrow> jsfile \<Rightarrow> error + raw_data option" where
  "extractFormFields e callNo imageFile =
     (case map_of providers (currentProvider e) of
        None \<Rightarrow> Inl (TypeError ''Cannot read properties of undefined (reading service)'')
      | Some p \<Rightarrow>
          if \<not> isConfigured e (currentProvider e) then
            Inl (Error (not_configured_message (p_name p)))
          else service_extractFormFields e (currentProvider e) callNo imageFile)"

section \<open>FormProcessingService: the PDF helpers\<close>

text \<open>Each helper catches what pdf.js throws and throws an \<open>Error\<close> with its own prefix.\<close>

definition getPDFPageCount :: "env \<Rightarrow> jsfile \<Rightarrow> error + nat" where
  "getPDFPageCount e pdfFile =
     (case pdf_numPages e pdfFile of
        Inl err \<Rightarrow> Inl (Error (''Failed to get PDF page count: '' @ message err))
      | Inr n \<Rightarrow> Inr n)"

definition convertPDFToImage :: "env \<Rightarrow> jsfile \<Rightarrow> error + blob" where
  "convertPDFToImage e pdfFile =
     (case pdf_renderPage e pdfFile 1 of
        Inl err \<Rightarrow> Inl (Error (''Failed to convert PDF: '' @ message err))
      | Inr b \<Rightarrow> Inr b)"

definition convertPDFPageToImage :: "env \<Rightarrow> jsfile \<Rightarrow> nat \<Rightarrow> error + blob" where
  "convertPDFPageToImage e pdfFile pageNumber =
     (case pdf_renderPage e pdfFile pageNumber of
        Inl err \<Rightarrow>
          Inl (Error (''Failed to convert PDF page '' @ show_nat pageNumber @ '': '' @ message err))
      | Inr b \<Rightarrow> Inr b)"

section \<open>The form store\<close>

record store =
  currentForm :: "jsfile option"
  originalFile :: "jsfile option"
  extractedData :: "extracted_data option"
  processing :: bool
  error :: "string option"
  history :: "history_entry list"
  imagePreview :: "string option"
  selectedProvider :: string
  isPDF :: bool
  currentPage :: nat
  totalPages :: nat
  processingPage :: "nat option"
  highlightedFieldId :: "string option"

subsection \<open>uploadForm\<close>

text \<open>The \<^verbatim>\<open>catch\<close> block of \<^verbatim>\<open>uploadForm\<close>: record the message, clear the flag, rethrow.\<close>

definition upload_failed :: "error \<Rightarrow> store \<Rightarrow> (error + unit) \<times> store" where
  "upload_failed err s = (Inl err, s\<lparr>error := Some (message err), processing := False\<rparr>)"

definition uploadForm :: "env \<Rightarrow> jsfile option \<Rightarrow> store \<Rightarrow> (error + unit) \<times> store" where
  "uploadForm e fl s0 =
     (let s = s0\<lparr>processing := True, error := None\<rparr>;
          validation = validateImageFile fl
      in if \<not> valid validation then
           upload_failed (Error (case v_error validation of Some m \<Rightarrow> m | None \<Rightarrow> [])) s
         else
           (case fl of
              None \<Rightarrow> upload_failed (TypeError ''Cannot read properties of null (reading type)'') s
            | Some f \<Rightarrow>
                if isPDF_file f then
                  (case getPDFPageCount e f of
                     Inl err \<Rightarrow> upload_failed err s
                   | Inr pageCount \<Rightarrow>
                       (case convertPDFToImage e f of
                          Inl err \<Rightarrow> upload_failed err s
                        | Inr imageBlob \<Rightarrow>
                            (Inr (),
                             s\<lparr>currentForm := Some (new_File imageBlob (file_name f) ''image/png''),
                               originalFile := Some f,
                               imagePreview := Some (createObjectURL e imageBlob),
                               extractedData := None,
                               processing := False,
                               isPDF := True,
                               currentPage := 1,
                               totalPages := pageCount\<rparr>)))
                else
                  (Inr (),
                   s\<lparr>currentForm := Some f,
                     originalFile := None,
                     imagePreview := Some (createObjectURL e (blob_of_file f)),
                     extractedData := None,
                     processing := False,
                     isPDF := False,
                     currentPage := 1,
                     totalPages := 1\<rparr>)))"

subsection \<open>extractFields\<close>

text \<open>\<^verbatim>\<open>{ ...field, page: pageNum }\<close>\<close>

definition with_page :: "nat \<Rightarrow> formatted_field \<Rightarrow> field" where
  "with_page pageNum f =
     \<lparr>fid = fid f, label = label f, fvalue = fvalue f, ftype = ftype f,
      confidence = confidence f, verified = verified f, boundingBox = boundingBox f,
      page = pageNum\<rparr>"

text \<open>
  The \<^verbatim>\<open>set\<close> after each page:
  \<^verbatim>\<open>formTitle: formTitle || state.extractedData?.formTitle || ''\<close>.
\<close>

definition publish :: "string option \<Rightarrow> field list \<Rightarrow> string \<Rightarrow> store \<Rightarrow> store" where
  "publish formTitle allFields now s =
     s\<lparr>extractedData :=
         Some \<lparr>ed_formTitle =
                  Some (or_string formTitle
                         (or_string (case extractedData s of None \<Rightarrow> None
                                     | Some d \<Rightarrow> ed_formTitle d) [])),
               ed_fields = allFields,
               ed_extractedAt = now\<rparr>\<rparr>"

text \<open>
  One iteration of the page loop. The locals \<^verbatim>\<open>allFields\<close> and \<^verbatim>\<open>formTitle\<close> are
  threaded through; the store is returned on failure too, since nothing is rolled back.
\<close>

definition extract_page ::
  "env \<Rightarrow> jsfile \<Rightarrow> nat \<Rightarrow> field list \<Rightarrow> string option \<Rightarrow> store
   \<Rightarrow> (error + field list \<times> string option) \<times> store" where
  "extract_page e pdfFile pageNum allFields formTitle s0 =
     (let s = s0\<lparr>processingPage := Some pageNum\<rparr> in
      case convertPDFPageToImage e pdfFile pageNum of
        Inl err \<Rightarrow> (Inl err, s)
      | Inr imageBlob \<Rightarrow>
          (case extractFormFields e pageNum (new_File imageBlob (file_name pdfFile) ''image/png'') of
             Inl err \<Rightarrow> (Inl err, s)
           | Inr rawData \<Rightarrow>
               (let formattedData =
                      formatExtractedData rawData pageNum (toISOString e (AtFormat pageNum));
                    formTitle' = (if pageNum = 1 then fd_formTitle formattedData else formTitle);
                    fieldsWithPage = map (with_page pageNum) (fd_fields formattedData);
                    allFields' = allFields @ fieldsWithPage
                in (Inr (allFields', formTitle'),
                    publish formTitle' allFields' (toISOString e (AtPublish pageNum)) s))))"

text \<open>\<^verbatim>\<open>for (let pageNum = 1; pageNum <= totalPages; pageNum++)\<close>, from any \<open>pageNum\<close>.\<close>

function page_loop ::
  "env \<Rightarrow> jsfile \<Rightarrow> nat \<Rightarrow> nat \<Rightarrow> field list \<Rightarrow> string option \<Rightarrow> store
   \<Rightarrow> (error + field list \<times> string option) \<times> store" where
  "page_loop e pdfFile lastPage pageNum allFields formTitle s =
     (if pageNum \<le> lastPage then
        (case extract_page e pdfFile pageNum allFields formTitle s of
           (Inl err, s') \<Rightarrow> (Inl err, s')
         | (Inr (allFields', formTitle'), s') \<Rightarrow>
             page_loop e pdfFile lastPage (Suc pageNum) allFields' formTitle' s')
      else (Inr (allFields, formTitle), s))"
  by pat_completeness auto
termination
  by (relation "measure (\<lambda>(e, pdfFile, lastPage, pageNum, allFields, formTitle, s). Suc lastPage - pageNum)")
     auto

declare page_loop.simps [simp del]

text \<open>The \<^verbatim>\<open>else\<close> branch: a single page or a plain image.\<close>

definition extract_single ::
  "env \<Rightarrow> jsfile \<Rightarrow> store \<Rightarrow> (error + field list \<times> string option) \<times> store" where
  "extract_single e form s =
     (case extractFormFields e 1 form of
        Inl err \<Rightarrow> (Inl err, s)
      | Inr rawData \<Rightarrow>
          (let formattedData = formatExtractedData rawData 1 (toISOString e (AtFormat 1))
           in (Inr (map (with_page 1) (fd_fields formattedData), fd_formTitle formattedData), s)))"

text \<open>
  The synchronous head of \<^verbatim>\<open>extractFields\<close>, up to the first \<^verbatim>\<open>await\<close>: the only
  guard is on \<^verbatim>\<open>currentForm\<close>; then \<^verbatim>\<open>processing\<close> is raised.
\<close>

definition extractFields_begin :: "store \<Rightarrow> error + jsfile \<times> store" where
  "extractFields_begin s0 =
     (case currentForm s0 of
        None \<Rightarrow> Inl (Error ''No form uploaded'')
      | Some form \<Rightarrow> Inr (form, s0\<lparr>processing := True, error := None\<rparr>))"

definition historyEntry_of ::
  "env \<Rightarrow> jsfile \<Rightarrow> string \<Rightarrow> field list \<Rightarrow> string option \<Rightarrow> history_entry" where
  "historyEntry_of e form selProvider allFields formTitle =
     \<lparr>h_id = Date_now e,
      h_filename = file_name form,
      h_extractedAt = toISOString e AtHistory,
      h_fieldsCount = length allFields,
      h_formTitle = formTitle,
      h_provider = or_string (map_option pi_name (getProviderInfo e selProvider)) selProvider\<rparr>"

definition extractFields :: "env \<Rightarrow> store \<Rightarrow> (error + extracted_data) \<times> store" where
  "extractFields e s0 =
     (case extractFields_begin s0 of
        Inl err \<Rightarrow> (Inl err, s0)
      | Inr (form, s) \<Rightarrow>
          (case (case originalFile s0 of
                   Some pdfFile \<Rightarrow>
                     if isPDF s0 \<and> totalPages s0 > 1
                     then page_loop e pdfFile (totalPages s0) 1 [] (Some [])  s
                     else extract_single e form s
                 | None \<Rightarrow> extract_single e form s) of
             (Inl err, s') \<Rightarrow>
               (Inl err,
                s'\<lparr>error := Some (message err), processing := False, processingPage := None\<rparr>)
           | (Inr (allFields, formTitle), s') \<Rightarrow>
               (let finalData =
                      \<lparr>ed_formTitle = formTitle, ed_fields = allFields,
                       ed_extractedAt = toISOString e AtFinal\<rparr>;
                    historyEntry =
                      historyEntry_of e form (selectedProvider s0) allFields formTitle
                in (Inr finalData,
                    s'\<lparr>extractedData := Some finalData,
                       processing := False,
                       processingPage := None,
                       history := take 10 (historyEntry # history s')\<rparr>))))"

subsection \<open>Field operations\<close>

text \<open>
  Each operation reads \<^verbatim>\<open>state.extractedData.fields\<close> inside \<^verbatim>\<open>set\<close>; with no
  extracted data that read throws and the store is left as it was.
\<close>

definition no_fields_error :: error where
  "no_fields_error = TypeError ''Cannot read properties of null (reading fields)''"

record updates =
  u_label :: "string option"
  u_value :: "string option"

text \<open>\<^verbatim>\<open>{ ...field, ...updates, verified: true }\<close>\<close>

definition apply_updates :: "updates \<Rightarrow> field \<Rightarrow> field" where
  "apply_updates u f =
     f\<lparr>label := (case u_label u of Some l \<Rightarrow> l | None \<Rightarrow> label f),
       fvalue := (case u_value u of Some v \<Rightarrow> v | None \<Rightarrow> fvalue f),
       verified := True\<rparr>"

definition updateField :: "string \<Rightarrow> updates \<Rightarrow> store \<Rightarrow> error + store" where
  "updateField fieldId u s =
     (case extractedData s of
        None \<Rightarrow> Inl no_fields_error
      | Some d \<Rightarrow>
          Inr (s\<lparr>extractedData :=
                   Some (d\<lparr>ed_fields :=
                             map (\<lambda>f. if fid f = fieldId then apply_updates u f else f)
                               (ed_fields d)\<rparr>)\<rparr>))"

definition toggleFieldVerification :: "string \<Rightarrow> store \<Rightarrow> error + store" where
  "toggleFieldVerification fieldId s =
     (case extractedData s of
        None \<Rightarrow> Inl no_fields_error
      | Some d \<Rightarrow>
          Inr (s\<lparr>extractedData :=
                   Some (d\<lparr>ed_fields :=
                             map (\<lambda>f. if fid f = fieldId then f\<lparr>verified := \<not> verified f\<rparr> else f)
                               (ed_fields d)\<rparr>)\<rparr>))"

definition deleteField :: "string \<Rightarrow> store \<Rightarrow> error + store" where
  "deleteField fieldId s =
     (case extractedData s of
        None \<Rightarrow> Inl no_fields_error
      | Some d \<Rightarrow>
          Inr (s\<lparr>extractedData :=
                   Some (d\<lparr>ed_fields := filter (\<lambda>f. fid f \<noteq> fieldId) (ed_fields d)\<rparr>)\<rparr>))"

record field_data =
  a_label :: "string option"
  a_value :: "string option"
  a_type :: "string option"
  a_page :: "nat option"

text \<open>\<^verbatim>\<open>fieldData.page || currentPage || 1\<close>, and the object literal of \<^verbatim>\<open>addField\<close>.\<close>

definition newField_of :: "field_data \<Rightarrow> nat \<Rightarrow> nat \<Rightarrow> field" where
  "newField_of fieldData now currentPage' =
     (let pageNum = or_page (a_page fieldData) (or_page (Some currentPage') 1) in
      \<lparr>fid = ''field_'' @ show_nat now @ ''_'' @ show_nat pageNum,
       label = or_string (a_label fieldData) ''New Field'',
       fvalue = or_string (a_value fieldData) [],
       ftype = or_string (a_type fieldData) ''text'',
       confidence = 1.0,
       verified = True,
       boundingBox = None,
       page = pageNum\<rparr>)"

definition addField :: "field_data \<Rightarrow> nat \<Rightarrow> store \<Rightarrow> error + store" where
  "addField fieldData now s =
     (let newField = newField_of fieldData now (currentPage s) in
      case extractedData s of
        None \<Rightarrow> Inl no_fields_error
      | Some d \<Rightarrow>
          Inr (s\<lparr>extractedData := Some (d\<lparr>ed_fields := ed_fields d @ [newField]\<rparr>)\<rparr>))"

section \<open>Notions used in the statements\<close>

text \<open>
  What one page yields: rendering followed by the provider call, as the loop body performs
  them; the fields the store derives from a page's payload; the number of entries of a
  payload; and the title \<^verbatim>\<open>formatExtractedData\<close> reports for a payload.
\<close>

definition page_outcome :: "env \<Rightarrow> jsfile \<Rightarrow> nat \<Rightarrow> error + raw_data option" where
  "page_outcome e pdfFile p =
     (case convertPDFPageToImage e pdfFile p of
        Inl err \<Rightarrow> Inl err
      | Inr imageBlob \<Rightarrow>
          extractFormFields e p (new_File imageBlob (file_name pdfFile) ''image/png''))"

definition page_fields :: "env \<Rightarrow> (nat \<Rightarrow> raw_data option) \<Rightarrow> nat \<Rightarrow> field list" where
  "page_fields e raw p =
     map (with_page p) (fd_fields (formatExtractedData (raw p) p (toISOString e (AtFormat p))))"

definition raw_count :: "raw_data option \<Rightarrow> nat" where
  "raw_count rawData =
     (case rawData of
        None \<Rightarrow> 0
      | Some rd \<Rightarrow> (case rd_fields rd of None \<Rightarrow> 0 | Some fs \<Rightarrow> length fs))"

definition page_title :: "raw_data option \<Rightarrow> string option" where
  "page_title rawData =
     (case rawData of
        None \<Rightarrow> Some ''Unknown Form''
      | Some rd \<Rightarrow> (case rd_fields rd of None \<Rightarrow> Some ''Unknown Form'' | Some fs \<Rightarrow> rd_formTitle rd))"

text \<open>The part of the store that the page loop never writes.\<close>

definition session_kept :: "store \<Rightarrow> store \<Rightarrow> bool" where
  "session_kept s s' \<longleftrightarrow>
     currentForm s' = currentForm s \<and> originalFile s' = originalFile s \<and>
     processing s' = processing s \<and> error s' = error s \<and> history s' = history s \<and>
     imagePreview s' = imagePreview s \<and> selectedProvider s' = selectedProvider s \<and>
     isPDF s' = isPDF s \<and> currentPage s' = currentPage s \<and> totalPages s' = totalPages s \<and>
     highlightedFieldId s' = highlightedFieldId s"

text \<open>Extraction runs one after the other, each in its own world, whatever their outcome.\<close>

fun run_extractions :: "env list \<Rightarrow> store \<Rightarrow> store" where
  "run_extractions [] s = s"
| "run_extractions (e # es) s = run_extractions es (snd (extractFields e s))"

section \<open>Sample inputs\<close>

text \<open>Concrete values on which the theorems below are instantiated.\<close>

definition demo_field :: field where
  "demo_field =
     \<lparr>fid = ''field_0_1'', label = ''Name'', fvalue = ''Ada'', ftype = ''text'',
      confidence = 0.9, verified = False, boundingBox = None, page = 1\<rparr>"

definition demo_data :: extracted_data where
  "demo_data =
     \<lparr>ed_formTitle = Some ''Registration'', ed_fields = [demo_field],
      ed_extractedAt = ''2024-01-01T00:00:00.000Z''\<rparr>"

definition demo_pdf :: jsfile where
  "demo_pdf = \<lparr>file_name = ''form.pdf'', file_type = ''application/pdf'', file_size = 4096\<rparr>"

definition demo_form :: jsfile where
  "demo_form = \<lparr>file_name = ''form.pdf'', file_type = ''image/png'', file_size = 2048\<rparr>"

text \<open>A three-page PDF is loaded, page 2 is shown, and one field has been extracted.\<close>

definition demo_store :: store where
  "demo_store =
     \<lparr>currentForm = Some demo_form, originalFile = Some demo_pdf,
      extractedData = Some demo_data, processing = False, error = None, history = [],
      imagePreview = Some ''blob:preview'', selectedProvider = ''gemini'', isPDF = True,
      currentPage = 2, totalPages = 3, processingPage = None, highlightedFieldId = None\<rparr>"

definition none_configured :: "string \<Rightarrow> bool" where
  "none_configured k = False"

definition only_claude :: "string \<Rightarrow> bool" where
  "only_claude k = (k = ''claude'')"

definition demo_exe :: jsfile where
  "demo_exe =
     \<lparr>file_name = ''setup.exe'', file_type = ''application/octet-stream'', file_size = 512\<rparr>"

definition demo_huge :: jsfile where
  "demo_huge = \<lparr>file_name = ''scan.png'', file_type = ''image/png'', file_size = 10485761\<rparr>"

text \<open>A world in which every page renders and the backend answers with no payload.\<close>

definition quiet_env :: env where
  "quiet_env =
     \<lparr>pdf_numPages = (\<lambda>f. Inr 3),
      pdf_renderPage = (\<lambda>f n. Inr \<lparr>blob_type = ''image/png'', blob_size = 1000 + n\<rparr>),
      service_extractFormFields = (\<lambda>k n f. Inr None),
      isConfigured = (\<lambda>k. k = ''gemini''),
      currentProvider = ''gemini'',
      createObjectURL = (\<lambda>b. ''blob:object-url''),
      toISOString = (\<lambda>c. ''2024-01-02T00:00:00.000Z''),
      Date_now = 1700000000000\<rparr>"

text \<open>
  Payloads of a three-page document: two fields and a title on page 1, one field and
  another title on page 2, no payload on page 3; and the worlds that return them, one of
  which fails the provider call of page \<open>k\<close>.
\<close>

definition demo_raw :: "nat \<Rightarrow> raw_data option" where
  "demo_raw p =
     (if p = 1 then
        Some \<lparr>rd_fields =
                Some [\<lparr>r_label = Some ''Name'', r_value = Some ''Ada'', r_type = Some ''text'',
                       r_confidence = Some 0.95,
                       r_boundingBox =
                         Some \<lparr>box_x = 0.1, box_y = 0.1, box_width = 0.3, box_height = 0.05\<rparr>\<rparr>,
                      \<lparr>r_label = None, r_value = None, r_type = None, r_confidence = None,
                       r_boundingBox = None\<rparr>],
              rd_formTitle = Some ''Intake'', rd_summary = Some ''two fields''\<rparr>
      else if p = 2 then
        Some \<lparr>rd_fields =
                Some [\<lparr>r_label = Some ''Email'', r_value = Some ''ada@example.org'',
                       r_type = Some ''email'', r_confidence = Some 0.5, r_boundingBox = None\<rparr>],
              rd_formTitle = Some ''Appendix'', rd_summary = None\<rparr>
      else None)"

definition demo_env :: env where
  "demo_env = quiet_env\<lparr>service_extractFormFields := (\<lambda>k n f. Inr (demo_raw n))\<rparr>"

definition failing_env :: "nat \<Rightarrow> env" where
  "failing_env k =
     quiet_env\<lparr>service_extractFormFields :=
       (\<lambda>key n f. if n = k then Inl (Error ''Request failed with status 429'')
                   else Inr (demo_raw n))\<rparr>"

definition demo_f1 :: field where
  "demo_f1 =
     \<lparr>fid = ''field_0_1'', label = ''Name'', fvalue = ''Ada'', ftype = ''text'',
      confidence = 0.95, verified = False,
      boundingBox = Some \<lparr>box_x = 0.1, box_y = 0.1, box_width = 0.3, box_height = 0.05\<rparr>,
      page = 1\<rparr>"

definition demo_f2 :: field where
  "demo_f2 =
     \<lparr>fid = ''field_1_1'', label = ''Field 2'', fvalue = [], ftype = ''text'',
      confidence = 0.8, verified = False, boundingBox = None, page = 1\<rparr>"

definition demo_f3 :: field where
  "demo_f3 =
     \<lparr>fid = ''field_0_2'', label = ''Email'', fvalue = ''ada@example.org'', ftype = ''email'',
      confidence = 0.5, verified = False, boundingBox = None, page = 2\<rparr>"

definition demo_result :: extracted_data where
  "demo_result =
     \<lparr>ed_formTitle = Some ''Intake'', ed_fields = [demo_f1, demo_f2, demo_f3],
      ed_extractedAt = ''2024-01-02T00:00:00.000Z''\<rparr>"

definition demo_entry :: history_entry where
  "demo_entry =
     \<lparr>h_id = 1700000000000, h_filename = ''form.pdf'',
      h_extractedAt = ''2024-01-02T00:00:00.000Z'', h_fieldsCount = 3,
      h_formTitle = Some ''Intake'', h_provider = ''Gemini 2.5''\<rparr>"

definition old_entry :: "nat \<Rightarrow> history_entry" where
  "old_entry n =
     \<lparr>h_id = n, h_filename = ''old.png'', h_extractedAt = ''2023-12-31T00:00:00.000Z'',
      h_fieldsCount = n, h_formTitle = None, h_provider = ''GPT-4o''\<rparr>"

definition full_store :: store where
  "full_store = demo_store\<lparr>history := map old_entry [10, 9, 8, 7, 6, 5, 4, 3, 2, 1]\<rparr>"

definition busy_store :: store where
  "busy_store = demo_store\<lparr>processing := True, processingPage := Some 2\<rparr>"

definition empty_store :: store where
  "empty_store =
     \<lparr>currentForm = None, originalFile = None, extractedData = None, processing = False,
      error = None, history = [], imagePreview = None, selectedProvider = ''gpt-4o'',
      isPDF = False, currentPage = 1, totalPages = 1, processingPage = None,
      highlightedFieldId = None\<rparr>"


section \<open>Auxiliary facts\<close>

lemma map_if_absent:
  "fieldId \<notin> fid ` set fs \<Longrightarrow> map (\<lambda>f. if fid f = fieldId then g f else f) fs = fs"
  by (intro map_idI) auto

lemma first_configured_None:
  "first_configured cfg ps = None \<longleftrightarrow> (\<forall>p \<in> set ps. \<not> cfg p)"
  by (induction ps) auto

lemma first_configured_Some:
  "first_configured cfg ps = Some q \<Longrightarrow>
     \<exists>i < length ps. ps ! i = q \<and> cfg q \<and> (\<forall>j < i. \<not> cfg (ps ! j))"
proof (induction ps)
  case Nil
  then show ?case by simp
next
  case (Cons p ps)
  show ?case
  proof (cases "cfg p")
    case True
    with Cons.prems have "q = p" by simp
    with True have "(p # ps) ! 0 = q \<and> cfg q \<and> (\<forall>j < 0. \<not> cfg ((p # ps) ! j))" by simp
    then show ?thesis by (intro exI [of _ 0]) simp
  next
    case False
    with Cons.prems have "first_configured cfg ps = Some q" by simp
    from Cons.IH [OF this] obtain i where
      i: "i < length ps" "ps ! i = q" "cfg q" "\<forall>j < i. \<not> cfg (ps ! j)" by blast
    have "\<not> cfg ((p # ps) ! j)" if "j < Suc i" for j
      using that False i(4) by (cases j) auto
    with i show ?thesis by (intro exI [of _ "Suc i"]) simp
  qed
qed

lemma fd_formTitle_format: "fd_formTitle (formatExtractedData rawData p t) = page_title rawData"
  by (simp add: formatExtractedData_def page_title_def split: option.splits)

lemma length_fd_fields: "length (fd_fields (formatExtractedData rawData p t)) = raw_count rawData"
  by (simp add: formatExtractedData_def raw_count_def split: option.splits)

lemma length_page_fields: "length (page_fields e raw p) = raw_count (raw p)"
  by (simp add: page_fields_def length_fd_fields)

lemma page_of_page_fields: "f \<in> set (page_fields e raw p) \<Longrightarrow> page f = p"
  by (auto simp: page_fields_def with_page_def)

lemma extract_page_ok:
  assumes "page_outcome e pdfFile p = Inr (raw p)"
  shows "extract_page e pdfFile p acc title s =
           (Inr (acc @ page_fields e raw p, if p = 1 then page_title (raw p) else title),
            publish (if p = 1 then page_title (raw p) else title) (acc @ page_fields e raw p)
              (toISOString e (AtPublish p)) (s\<lparr>processingPage := Some p\<rparr>))"
  using assms
  by (auto simp: extract_page_def page_outcome_def page_fields_def fd_formTitle_format Let_def
        split: sum.splits)

lemma extract_page_fail:
  assumes "page_outcome e pdfFile p = Inl err"
  shows "extract_page e pdfFile p acc title s = (Inl err, s\<lparr>processingPage := Some p\<rparr>)"
  using assms
  by (auto simp: extract_page_def page_outcome_def Let_def split: sum.splits)


lemma session_kept_refl: "session_kept s s"
  by (simp add: session_kept_def)

lemma session_kept_trans: "session_kept s s1 \<Longrightarrow> session_kept s1 s2 \<Longrightarrow> session_kept s s2"
  by (simp add: session_kept_def)

lemma extract_page_kept: "session_kept s (snd (extract_page e pdfFile p acc title s))"
  by (simp add: extract_page_def session_kept_def publish_def Let_def split: sum.splits)

lemma page_loop_kept:
  "session_kept s (snd (page_loop e pdfFile lastPage pageNum acc title s))"
proof (induction e pdfFile lastPage pageNum acc title s rule: page_loop.induct)
  case (1 e pdfFile lastPage pageNum acc title s)
  show ?case
  proof (cases "pageNum \<le> lastPage")
    case False
    then show ?thesis
      by (subst page_loop.simps) (simp add: session_kept_refl)
  next
    case True
    obtain r s1 where ep: "extract_page e pdfFile pageNum acc title s = (r, s1)"
      by (cases "extract_page e pdfFile pageNum acc title s")
    have k1: "session_kept s s1"
      using extract_page_kept [of s e pdfFile pageNum acc title] ep by simp
    show ?thesis
    proof (cases r)
      case (Inl err)
      with True ep k1 show ?thesis
        by (subst page_loop.simps) simp
    next
      case (Inr v)
      obtain acc' title' where v: "v = (acc', title')" by (cases v)
      have "session_kept s1 (snd (page_loop e pdfFile lastPage (Suc pageNum) acc' title' s1))"
        using "1.IH" [OF True ep [symmetric] Inr v [symmetric]] by simp
      with k1 have "session_kept s (snd (page_loop e pdfFile lastPage (Suc pageNum) acc' title' s1))"
        by (rule session_kept_trans)
      with True ep Inr v show ?thesis
        by (subst page_loop.simps) simp
    qed
  qed
qed

lemma page_loop_all_ok:
  assumes "\<forall>p. pageNum \<le> p \<and> p \<le> lastPage \<longrightarrow> page_outcome e pdfFile p = Inr (raw p)"
  shows "fst (page_loop e pdfFile lastPage pageNum acc title s) =
           Inr (acc @ concat (map (page_fields e raw) [pageNum..<Suc lastPage]),
                if pageNum \<le> 1 \<and> 1 \<le> lastPage then page_title (raw 1) else title)"
  using assms
proof (induction "Suc lastPage - pageNum" arbitrary: pageNum acc title s)
  case 0
  then have "\<not> pageNum \<le> lastPage" by simp
  then show ?case
    by (subst page_loop.simps) auto
next
  case (Suc n)
  then have le: "pageNum \<le> lastPage" by simp
  with Suc.prems have ok: "page_outcome e pdfFile pageNum = Inr (raw pageNum)" by simp
  have n: "n = Suc lastPage - Suc pageNum" using Suc.hyps(2) by simp
  have rest: "\<forall>p. Suc pageNum \<le> p \<and> p \<le> lastPage \<longrightarrow> page_outcome e pdfFile p = Inr (raw p)"
    using Suc.prems by simp
  have upt: "[pageNum..<Suc lastPage] = pageNum # [Suc pageNum..<Suc lastPage]"
    using le by (simp add: upt_conv_Cons del: upt_Suc)
  have step: "page_loop e pdfFile lastPage pageNum acc title s =
      page_loop e pdfFile lastPage (Suc pageNum) (acc @ page_fields e raw pageNum)
        (if pageNum = 1 then page_title (raw pageNum) else title)
        (publish (if pageNum = 1 then page_title (raw pageNum) else title)
           (acc @ page_fields e raw pageNum) (toISOString e (AtPublish pageNum))
           (s\<lparr>processingPage := Some pageNum\<rparr>))"
    using le by (subst page_loop.simps) (simp add: extract_page_ok [where raw = raw, OF ok])
  show ?case
    unfolding step Suc.hyps(1) [OF n rest] upt
    using le by (auto simp: le_Suc_eq)
qed

lemma or_string_absorb: "or_string t (or_string (Some (or_string t x)) []) = or_string t x"
  by (simp add: or_string_def split: option.splits)

lemma publish_publish:
  "publish t fs n (publish t fs' n' s) = publish t fs n s"
  by (simp add: publish_def or_string_absorb)

lemma publish_processingPage:
  "publish t fs n (s\<lparr>processingPage := q\<rparr>) = (publish t fs n s)\<lparr>processingPage := q\<rparr>"
  by (simp add: publish_def)

lemma page_loop_fails_at:
  assumes "2 \<le> pageNum" "pageNum \<le> k" "k \<le> lastPage"
    and "\<forall>p. pageNum \<le> p \<and> p < k \<longrightarrow> page_outcome e pdfFile p = Inr (raw p)"
    and "page_outcome e pdfFile k = Inl err"
  shows "page_loop e pdfFile lastPage pageNum acc title s =
           (Inl err,
            (if k = pageNum then s
             else publish title (acc @ concat (map (page_fields e raw) [pageNum..<k]))
                    (toISOString e (AtPublish (k - 1))) s)\<lparr>processingPage := Some k\<rparr>)"
  using assms
proof (induction "k - pageNum" arbitrary: pageNum acc s)
  case 0
  then have eq: "pageNum = k" by simp
  with "0.prems" show ?case
    by (subst page_loop.simps) (simp add: extract_page_fail)
next
  case (Suc n)
  then have lt: "pageNum < k" by simp
  with Suc.prems have le: "pageNum \<le> lastPage" by simp
  from lt Suc.prems have ok: "page_outcome e pdfFile pageNum = Inr (raw pageNum)" by simp
  have n: "n = k - Suc pageNum" using Suc.hyps(2) by simp
  have ne1: "pageNum \<noteq> 1" using Suc.prems(1) by simp
  have rest: "\<forall>p. Suc pageNum \<le> p \<and> p < k \<longrightarrow> page_outcome e pdfFile p = Inr (raw p)"
    using Suc.prems by simp
  have upt: "[pageNum..<k] = pageNum # [Suc pageNum..<k]"
    using lt by (simp add: upt_conv_Cons)
  have ih: "page_loop e pdfFile lastPage (Suc pageNum) acc' title s' =
           (Inl err,
            (if k = Suc pageNum then s'
             else publish title (acc' @ concat (map (page_fields e raw) [Suc pageNum..<k]))
                    (toISOString e (AtPublish (k - 1))) s')\<lparr>processingPage := Some k\<rparr>)" for acc' s'
    using Suc.hyps(1) [OF n _ _ Suc.prems(3) rest Suc.prems(5)] lt Suc.prems(1) by simp
  show ?case
  proof (cases "k = Suc pageNum")
    case True
    with le lt ne1 show ?thesis
      by (subst page_loop.simps)
        (simp add: extract_page_ok [where raw = raw, OF ok] ih publish_processingPage)
  next
    case False
    with le lt ne1 show ?thesis
      by (subst page_loop.simps)
        (simp add: extract_page_ok [where raw = raw, OF ok] ih upt publish_publish publish_processingPage)
  qed
qed

lemma page_loop_fails_from_first:
  assumes "1 \<le> k" "k \<le> lastPage"
    and "\<forall>p. 1 \<le> p \<and> p < k \<longrightarrow> page_outcome e pdfFile p = Inr (raw p)"
    and "page_outcome e pdfFile k = Inl err"
  shows "page_loop e pdfFile lastPage 1 [] (Some []) s =
           (Inl err,
            (if k = 1 then s
             else publish (page_title (raw 1)) (concat (map (page_fields e raw) [1..<k]))
                    (toISOString e (AtPublish (k - 1))) s)\<lparr>processingPage := Some k\<rparr>)"
proof (cases "k = 1")
  case True
  with assms show ?thesis
    by (subst page_loop.simps) (simp add: extract_page_fail)
next
  case False
  with assms have k2: "Suc (Suc 0) \<le> k" by simp
  then have ok: "page_outcome e pdfFile (Suc 0) = Inr (raw (Suc 0))" using assms(3) by simp
  have rest: "\<forall>p. Suc (Suc 0) \<le> p \<and> p < k \<longrightarrow> page_outcome e pdfFile p = Inr (raw p)"
    using assms(3) by simp
  have upt: "[Suc 0..<k] = Suc 0 # [Suc (Suc 0)..<k]"
    using k2 by (simp add: upt_conv_Cons)
  have le: "Suc 0 \<le> lastPage" using assms by simp
  have two: "2 \<le> Suc (Suc 0)" by simp
  note tail = page_loop_fails_at [where raw = raw, OF two k2 assms(2) rest assms(4)]
  have step: "page_loop e pdfFile lastPage (Suc 0) [] (Some []) s =
      page_loop e pdfFile lastPage (Suc (Suc 0)) (page_fields e raw (Suc 0))
        (page_title (raw (Suc 0)))
        (publish (page_title (raw (Suc 0))) (page_fields e raw (Suc 0))
           (toISOString e (AtPublish (Suc 0))) (s\<lparr>processingPage := Some (Suc 0)\<rparr>))"
    using le
    by (subst page_loop.simps) (simp add: extract_page_ok [where raw = raw, OF ok])
  show ?thesis
  proof (cases "k = Suc (Suc 0)")
    case True
    then show ?thesis
      using step by (simp add: tail publish_processingPage)
  next
    case k3: False
    with False show ?thesis
      using step by (simp add: tail upt publish_publish publish_processingPage)
  qed
qed


lemma extractFields_all_ok:
  assumes "currentForm s = Some form" and "originalFile s = Some pdfFile" and "isPDF s"
    and "1 < totalPages s"
    and "\<forall>p. 1 \<le> p \<and> p \<le> totalPages s \<longrightarrow> page_outcome e pdfFile p = Inr (raw p)"
  shows "extractFields e s =
           (Inr \<lparr>ed_formTitle = page_title (raw 1),
                 ed_fields = concat (map (page_fields e raw) [1..<Suc (totalPages s)]),
                 ed_extractedAt = toISOString e AtFinal\<rparr>,
            s\<lparr>error := None,
              extractedData :=
                Some \<lparr>ed_formTitle = page_title (raw 1),
                      ed_fields = concat (map (page_fields e raw) [1..<Suc (totalPages s)]),
                      ed_extractedAt = toISOString e AtFinal\<rparr>,
              processing := False,
              processingPage := None,
              history :=
                take 10 (historyEntry_of e form (selectedProvider s)
                           (concat (map (page_fields e raw) [1..<Suc (totalPages s)]))
                           (page_title (raw 1)) # history s)\<rparr>)"
proof -
  let ?s0 = "s\<lparr>processing := True, error := None\<rparr>"
  obtain r s1 where loop: "page_loop e pdfFile (totalPages s) 1 [] (Some []) ?s0 = (r, s1)"
    by (cases "page_loop e pdfFile (totalPages s) 1 [] (Some []) ?s0")
  have "fst (page_loop e pdfFile (totalPages s) 1 [] (Some []) ?s0) =
          Inr ([] @ concat (map (page_fields e raw) [1..<Suc (totalPages s)]),
               if (1::nat) \<le> 1 \<and> 1 \<le> totalPages s then page_title (raw 1) else Some [])"
    by (rule page_loop_all_ok) (use assms(5) in simp)
  with loop assms(4) have r: "r = Inr (concat (map (page_fields e raw) [1..<Suc (totalPages s)]),
      page_title (raw 1))"
    by (simp del: upt_Suc)
  have kept: "session_kept ?s0 s1"
    using page_loop_kept [of ?s0 e pdfFile "totalPages s" 1 "[]" "Some []"] loop by simp
  have run: "extractFields e s =
      (Inr \<lparr>ed_formTitle = page_title (raw 1),
            ed_fields = concat (map (page_fields e raw) [1..<Suc (totalPages s)]),
            ed_extractedAt = toISOString e AtFinal\<rparr>,
       s1\<lparr>extractedData :=
            Some \<lparr>ed_formTitle = page_title (raw 1),
                  ed_fields = concat (map (page_fields e raw) [1..<Suc (totalPages s)]),
                  ed_extractedAt = toISOString e AtFinal\<rparr>,
          processing := False,
          processingPage := None,
          history :=
            take 10 (historyEntry_of e form (selectedProvider s)
                       (concat (map (page_fields e raw) [1..<Suc (totalPages s)]))
                       (page_title (raw 1)) # history s1)\<rparr>)"
    using assms(1-4) loop [unfolded r]
    by (simp add: extractFields_def extractFields_begin_def Let_def del: upt_Suc)
  have "s1\<lparr>extractedData := X, processing := False, processingPage := None,
           history := take 10 (h # history s1)\<rparr> =
        s\<lparr>error := None, extractedData := X, processing := False, processingPage := None,
          history := take 10 (h # history s)\<rparr>" for X h
    using kept by (intro store.equality) (simp_all add: session_kept_def)
  with run show ?thesis by simp
qed

lemma extractFields_fails_at:
  assumes "currentForm s = Some form" and "originalFile s = Some pdfFile" and "isPDF s"
    and "1 < totalPages s" and "1 \<le> k" and "k \<le> totalPages s"
    and "\<forall>p. 1 \<le> p \<and> p < k \<longrightarrow> page_outcome e pdfFile p = Inr (raw p)"
    and "page_outcome e pdfFile k = Inl err"
  shows "extractFields e s =
           (Inl err,
            s\<lparr>extractedData :=
                (if k = 1 then extractedData s
                 else Some \<lparr>ed_formTitle =
                              Some (or_string (page_title (raw 1))
                                     (or_string (case extractedData s of None \<Rightarrow> None
                                                 | Some d \<Rightarrow> ed_formTitle d) [])),
                            ed_fields = concat (map (page_fields e raw) [1..<k]),
                            ed_extractedAt = toISOString e (AtPublish (k - 1))\<rparr>),
              processing := False,
              error := Some (message err),
              processingPage := None\<rparr>)"
proof -
  let ?s0 = "s\<lparr>processing := True, error := None\<rparr>"
  note loop = page_loop_fails_from_first [where raw = raw and s = ?s0, OF assms(5-8)]
  show ?thesis
    using assms(1-4) loop
    by (simp add: extractFields_def extractFields_begin_def publish_def)
qed


lemma extract_single_kept: "snd (extract_single e form s) = s"
  by (simp add: extract_single_def Let_def split: sum.splits)

lemma provider_names_nonempty: "map_of providers k = Some p \<Longrightarrow> p_name p \<noteq> []"
  by (auto simp: providers_def split: if_splits)

lemma historyEntry_provider:
  "h_provider (historyEntry_of e form sel fs t) =
     (case map_of providers sel of Some p \<Rightarrow> p_name p | None \<Rightarrow> sel)"
  by (auto simp: historyEntry_of_def getProviderInfo_def or_string_def
      dest: provider_names_nonempty split: option.splits)

lemma extractFields_history:
  "history (snd (extractFields e s)) =
     (case fst (extractFields e s) of
        Inl err \<Rightarrow> history s
      | Inr d \<Rightarrow>
          (case currentForm s of
             None \<Rightarrow> history s
           | Some form \<Rightarrow>
               take 10 (historyEntry_of e form (selectedProvider s) (ed_fields d) (ed_formTitle d)
                        # history s)))"
proof (cases "currentForm s")
  case None
  then show ?thesis
    by (simp add: extractFields_def extractFields_begin_def)
next
  case (Some form)
  let ?s0 = "s\<lparr>processing := True, error := None\<rparr>"
  define out where "out =
    (case originalFile s of
       Some pdfFile \<Rightarrow>
         if isPDF s \<and> totalPages s > 1
         then page_loop e pdfFile (totalPages s) 1 [] (Some []) ?s0
         else extract_single e form ?s0
     | None \<Rightarrow> extract_single e form ?s0)"
  have kept: "session_kept ?s0 (snd out)"
    unfolding out_def
    by (auto simp: page_loop_kept extract_single_kept session_kept_refl split: option.splits)
  then have h: "history (snd out) = history s"
    by (simp add: session_kept_def)
  obtain r s1 where o: "out = (r, s1)" by (cases out)
  have run: "extractFields e s =
     (case out of
        (Inl err, s') \<Rightarrow>
          (Inl err, s'\<lparr>error := Some (message err), processing := False, processingPage := None\<rparr>)
      | (Inr (allFields, formTitle), s') \<Rightarrow>
          (Inr \<lparr>ed_formTitle = formTitle, ed_fields = allFields,
                ed_extractedAt = toISOString e AtFinal\<rparr>,
           s'\<lparr>extractedData := Some \<lparr>ed_formTitle = formTitle, ed_fields = allFields,
                ed_extractedAt = toISOString e AtFinal\<rparr>,
              processing := False,
              processingPage := None,
              history := take 10 (historyEntry_of e form (selectedProvider s) allFields formTitle
                                  # history s')\<rparr>))"
    using Some unfolding extractFields_def extractFields_begin_def out_def Let_def by simp
  show ?thesis
    using h Some unfolding run o by (cases r) (auto split: prod.splits)
qed

lemma extractFields_history_length:
  "length (history s) \<le> 10 \<Longrightarrow> length (history (snd (extractFields e s))) \<le> 10"
  by (simp add: extractFields_history split: sum.splits option.splits)

lemma run_extractions_length:
  "length (history s) \<le> 10 \<Longrightarrow> length (history (run_extractions es s)) \<le> 10"
  by (induction es arbitrary: s) (simp_all add: extractFields_history_length)

lemma upt_1_4: "[1..<Suc 3] = [1, 2, 3::nat]"
  by code_simp

lemma demo_page_outcome: "page_outcome demo_env demo_pdf p = Inr (demo_raw p)"
  by (simp add: page_outcome_def convertPDFPageToImage_def extractFormFields_def demo_env_def
      quiet_env_def providers_def)

lemma failing_page_outcome:
  "page_outcome (failing_env k) demo_pdf p =
     (if p = k then Inl (Error ''Request failed with status 429'') else Inr (demo_raw p))"
  by (simp add: page_outcome_def convertPDFPageToImage_def extractFormFields_def failing_env_def
      quiet_env_def providers_def)

lemma demo_page_fields:
  "page_fields e demo_raw 1 = [demo_f1, demo_f2]"
  "page_fields e demo_raw 2 = [demo_f3]"
  "page_fields e demo_raw 3 = []"
  by (simp_all add: page_fields_def formatExtractedData_def demo_raw_def format_field_def
      with_page_def or_string_def or_number_def show_nat.simps demo_f1_def demo_f2_def
      demo_f3_def)

lemma demo_page_title: "page_title (demo_raw 1) = Some ''Intake''"
  by (simp add: page_title_def demo_raw_def)

lemma demo_raw_counts: "raw_count (demo_raw 1) = 2" "raw_count (demo_raw 2) = 1" "raw_count (demo_raw 3) = 0"
  by (simp_all add: raw_count_def demo_raw_def)

lemma demo_run:
  "fst (extractFields demo_env (demo_store\<lparr>processing := b, history := h, processingPage := q\<rparr>))
     = Inr demo_result"
proof -
  let ?s = "demo_store\<lparr>processing := b, history := h, processingPage := q\<rparr>"
  have a: "currentForm ?s = Some demo_form" "originalFile ?s = Some demo_pdf" "isPDF ?s"
    "1 < totalPages ?s"
    by (simp_all add: demo_store_def)
  have b: "\<forall>p. 1 \<le> p \<and> p \<le> totalPages ?s \<longrightarrow> page_outcome demo_env demo_pdf p = Inr (demo_raw p)"
    by (simp add: demo_page_outcome)
  have t: "totalPages ?s = 3" by (simp add: demo_store_def)
  have at: "toISOString demo_env AtFinal = ''2024-01-02T00:00:00.000Z''"
    by (simp add: demo_env_def quiet_env_def)
  show ?thesis
    unfolding extractFields_all_ok [OF a b] t upt_1_4
    using demo_page_fields [of demo_env] demo_page_title
    by (simp add: demo_result_def at)
qed



section \<open>Field operations of the store\<close>

text \<open>
  C4 (as stated: \<^verbatim>\<open>update\<close> on an id that is not in the collection fails with
  FieldNotFoundError and leaves the collection unchanged). The store has no such error:
  \<^verbatim>\<open>updateField\<close> maps over the fields and returns normally. At the sample store, whose
  only field is \<^verbatim>\<open>field_0_1\<close>, updating \<^verbatim>\<open>field_9_9\<close> succeeds, with the store unchanged.
\<close>

theorem updateField_unknown_id_no_error:
  "updateField ''field_9_9'' \<lparr>u_label = Some ''Surname'', u_value = None\<rparr> demo_store
     = Inr demo_store
   \<and> ''field_9_9'' \<notin> fid ` set (ed_fields demo_data)"
  by (simp add: updateField_def demo_store_def demo_data_def demo_field_def)

text \<open>
  C4 (amended): for every field collection and every id not present in it,
  \<^verbatim>\<open>updateField\<close> completes without an error and leaves the whole store, hence the field
  collection, unchanged.
\<close>

theorem updateField_unknown_id_unchanged:
  assumes "extractedData s = Some d" and "fieldId \<notin> fid ` set (ed_fields d)"
  shows "updateField fieldId u s = Inr s"
  using assms by (simp add: updateField_def map_if_absent)

theorem updateField_unknown_id_unchanged_witness:
  "extractedData demo_store = Some demo_data
   \<and> ''field_9_9'' \<notin> fid ` set (ed_fields demo_data)
   \<and> updateField ''field_9_9'' \<lparr>u_label = Some ''Surname'', u_value = Some ''Lovelace''\<rparr>
        demo_store = Inr demo_store"
proof -
  have h1: "extractedData demo_store = Some demo_data"
    by (simp add: demo_store_def)
  have h2: "''field_9_9'' \<notin> fid ` set (ed_fields demo_data)"
    by (simp add: demo_data_def demo_field_def)
  show ?thesis
    using h1 h2 updateField_unknown_id_unchanged [OF h1 h2] by simp
qed

text \<open>
  C9: for every field collection and every id, toggling the verification of that id
  twice in succession gives back exactly the original store, and toggling once an id that
  is not in the collection leaves the store unchanged.
\<close>

theorem toggleFieldVerification_twice:
  assumes "extractedData s = Some d"
  shows "(case toggleFieldVerification fieldId s of
            Inl err \<Rightarrow> Inl err
          | Inr s' \<Rightarrow> toggleFieldVerification fieldId s') = Inr s
         \<and> (fieldId \<notin> fid ` set (ed_fields d) \<longrightarrow> toggleFieldVerification fieldId s = Inr s)"
proof -
  have "map ((\<lambda>f. if fid f = fieldId then f\<lparr>verified := \<not> verified f\<rparr> else f) \<circ>
             (\<lambda>f. if fid f = fieldId then f\<lparr>verified := \<not> verified f\<rparr> else f)) fs = fs"
    for fs :: "field list"
    by (intro map_idI) auto
  then show ?thesis
    using assms by (simp add: toggleFieldVerification_def map_if_absent)
qed

theorem toggleFieldVerification_twice_witness:
  "(case toggleFieldVerification ''field_0_1'' demo_store of
      Inl err \<Rightarrow> Inl err
    | Inr s' \<Rightarrow> toggleFieldVerification ''field_0_1'' s') = Inr demo_store
   \<and> toggleFieldVerification ''field_0_1'' demo_store \<noteq> Inr demo_store
   \<and> toggleFieldVerification ''field_9_9'' demo_store = Inr demo_store"
proof -
  have h: "extractedData demo_store = Some demo_data"
    by (simp add: demo_store_def)
  have absent: "''field_9_9'' \<notin> fid ` set (ed_fields demo_data)"
    by (simp add: demo_data_def demo_field_def)
  have once: "toggleFieldVerification ''field_0_1'' demo_store \<noteq> Inr demo_store"
    by (simp add: toggleFieldVerification_def demo_store_def demo_data_def demo_field_def)
  show ?thesis
    using toggleFieldVerification_twice [OF h, of "''field_0_1''"]
      toggleFieldVerification_twice [OF h, of "''field_9_9''"] absent once
    by simp
qed

text \<open>
  C5 (as stated: \<^verbatim>\<open>add\<close> fails with ValidationError when the label is empty). The store
  never rejects a label: \<^verbatim>\<open>fieldData.label || 'New Field'\<close> replaces an empty one. At the
  sample store, adding a field with the empty label succeeds and appends a field labelled
  \<^verbatim>\<open>New Field\<close>.
\<close>

theorem addField_empty_label_accepted:
  "addField \<lparr>a_label = Some [], a_value = Some ''x'', a_type = Some ''text'', a_page = Some 2\<rparr>
      1700000000000 demo_store =
     Inr (demo_store\<lparr>extractedData := Some (demo_data\<lparr>ed_fields :=
       [demo_field,
        \<lparr>fid = ''field_1700000000000_2'', label = ''New Field'', fvalue = ''x'', ftype = ''text'',
         confidence = 1, verified = True, boundingBox = None, page = 2\<rparr>]\<rparr>)\<rparr>)"
  by (simp add: addField_def newField_of_def or_string_def or_page_def Let_def show_nat.simps
        demo_store_def demo_data_def)

text \<open>
  C5 (amended): for every manual add request on a store that holds extracted data, the
  add operation does not fail: it appends exactly one field, whose label is the given
  label, or \<^verbatim>\<open>New Field\<close> when the given label is empty or missing, with confidence 1.0,
  verified true, no boundingBox, and page equal to the given page when one is given and is
  not 0, and otherwise to the document's current page (1 if that is 0).
\<close>

theorem addField_appends_one:
  assumes "extractedData s = Some d"
  shows "addField fieldData now s =
           Inr (s\<lparr>extractedData :=
                    Some (d\<lparr>ed_fields := ed_fields d @ [newField_of fieldData now (currentPage s)]\<rparr>)\<rparr>)
         \<and> label (newField_of fieldData now (currentPage s)) =
             (case a_label fieldData of None \<Rightarrow> ''New Field''
              | Some l \<Rightarrow> if l = [] then ''New Field'' else l)
         \<and> confidence (newField_of fieldData now (currentPage s)) = 1
         \<and> verified (newField_of fieldData now (currentPage s))
         \<and> boundingBox (newField_of fieldData now (currentPage s)) = None
         \<and> page (newField_of fieldData now (currentPage s)) =
             (case a_page fieldData of
                Some p \<Rightarrow> if p \<noteq> 0 then p else if currentPage s \<noteq> 0 then currentPage s else 1
              | None \<Rightarrow> if currentPage s \<noteq> 0 then currentPage s else 1)"
  using assms
  by (simp add: addField_def newField_of_def or_string_def or_page_def Let_def
        split: option.splits)

theorem addField_appends_one_witness:
  "addField \<lparr>a_label = Some ''Email'', a_value = None, a_type = None, a_page = Some 2\<rparr>
      1700000000000 demo_store =
     Inr (demo_store\<lparr>extractedData := Some (demo_data\<lparr>ed_fields :=
       [demo_field,
        \<lparr>fid = ''field_1700000000000_2'', label = ''Email'', fvalue = [], ftype = ''text'',
         confidence = 1, verified = True, boundingBox = None, page = 2\<rparr>]\<rparr>)\<rparr>)"
proof -
  have h: "extractedData demo_store = Some demo_data"
    by (simp add: demo_store_def)
  show ?thesis
    using addField_appends_one [OF h,
        of "\<lparr>a_label = Some ''Email'', a_value = None, a_type = None, a_page = Some 2\<rparr>"
           1700000000000]
    by (simp add: newField_of_def or_string_def or_page_def Let_def show_nat.simps demo_data_def)
qed

section \<open>The response-field mapping\<close>

text \<open>
  C6: the mapping is to apply a default only to a missing attribute and to keep every
  attribute that is present, a confidence of 0 included. The code writes
  \<^verbatim>\<open>field.confidence || 0.8\<close>, and \<open>0\<close> is falsy: a raw field that reports confidence
  \<open>0\<close> is mapped to confidence \<open>0.8\<close>. Its empty-string value is kept.
\<close>

theorem format_field_zero_confidence_replaced:
  "confidence (format_field 1 0
       \<lparr>r_label = Some ''Name'', r_value = Some [], r_type = Some ''text'',
        r_confidence = Some 0, r_boundingBox = None\<rparr>) = 0.8
   \<and> fvalue (format_field 1 0
       \<lparr>r_label = Some ''Name'', r_value = Some [], r_type = Some ''text'',
        r_confidence = Some 0, r_boundingBox = None\<rparr>) = []"
  by (simp add: format_field_def or_number_def or_string_def)

section \<open>The default provider\<close>

text \<open>
  C7 (as stated: with no provider configured, the default is the first entry of the
  priority order that is scanned). The scan order starts with \<^verbatim>\<open>gemini\<close>, and the
  fallback is the literal \<^verbatim>\<open>gpt-4o\<close>, its second entry.
\<close>

theorem getDefaultProvider_fallback_not_first:
  "getDefaultProvider none_configured = ''gpt-4o''
   \<and> hd priorityOrder = ''gemini''
   \<and> getDefaultProvider none_configured \<noteq> hd priorityOrder"
  by (simp add: getDefaultProvider_def priorityOrder_def none_configured_def)

text \<open>
  C7 (amended): when no provider of the priority order (gemini, gpt-4o, claude) is
  configured, the default provider is \<^verbatim>\<open>gpt-4o\<close>; when at least one is configured, it is
  the first configured one in that order.
\<close>

theorem getDefaultProvider_selection:
  "((\<forall>p \<in> set priorityOrder. \<not> cfg p) \<longrightarrow> getDefaultProvider cfg = ''gpt-4o'')
   \<and> ((\<exists>p \<in> set priorityOrder. cfg p) \<longrightarrow>
        (\<exists>i < length priorityOrder.
            getDefaultProvider cfg = priorityOrder ! i \<and> cfg (priorityOrder ! i)
            \<and> (\<forall>j < i. \<not> cfg (priorityOrder ! j))))"
proof (cases "first_configured cfg priorityOrder")
  case None
  then have "\<forall>p \<in> set priorityOrder. \<not> cfg p"
    by (simp add: first_configured_None)
  with None show ?thesis
    by (auto simp: getDefaultProvider_def)
next
  case (Some q)
  from first_configured_Some [OF Some] obtain i where
    "i < length priorityOrder" "priorityOrder ! i = q" "cfg q"
    "\<forall>j < i. \<not> cfg (priorityOrder ! j)"
    by blast
  moreover have "getDefaultProvider cfg = q"
    using Some by (simp add: getDefaultProvider_def)
  moreover have "\<not> (\<forall>p \<in> set priorityOrder. \<not> cfg p)"
    using Some first_configured_None [of cfg priorityOrder] by simp
  ultimately show ?thesis by blast
qed

theorem getDefaultProvider_selection_witness:
  "getDefaultProvider none_configured = ''gpt-4o'' \<and> getDefaultProvider only_claude = ''claude''"
proof -
  have a: "\<forall>p \<in> set priorityOrder. \<not> none_configured p"
    by (simp add: none_configured_def)
  have b: "\<exists>p \<in> set priorityOrder. only_claude p"
    by (simp add: only_claude_def priorityOrder_def)
  have c: "getDefaultProvider only_claude = ''claude''"
    by (simp add: getDefaultProvider_def priorityOrder_def only_claude_def)
  show ?thesis
    using getDefaultProvider_selection [of none_configured]
      getDefaultProvider_selection [of only_claude] a b c
    by simp
qed

section \<open>Upload validation\<close>

text \<open>
  C10: for every store state and every file that fails upload validation (its type is not
  on the allow-list, or its size is over the 10 MiB cap), \<^verbatim>\<open>uploadForm\<close> rejects with the
  validation error and leaves the document session as it was: the store differs from the
  one before the call only in the error message, which is set, and the processing flag,
  which is cleared; so the current form, the original file, the extracted data, the page
  count and the current page are the same.
\<close>

theorem uploadForm_invalid_file_rejected:
  assumes "file_type f \<notin> set allowedTypes \<or> file_size f > maxSize"
  shows "uploadForm e (Some f) s =
           (Inl (Error (if file_type f \<notin> set allowedTypes
                        then ''Invalid file type. Please upload JPG, PNG, WebP images or PDF files.''
                        else ''File too large. Maximum size is 10MB.'')),
            s\<lparr>error := Some (if file_type f \<notin> set allowedTypes
                        then ''Invalid file type. Please upload JPG, PNG, WebP images or PDF files.''
                        else ''File too large. Maximum size is 10MB.''),
               processing := False\<rparr>)
         \<and> currentForm (snd (uploadForm e (Some f) s)) = currentForm s
         \<and> originalFile (snd (uploadForm e (Some f) s)) = originalFile s
         \<and> extractedData (snd (uploadForm e (Some f) s)) = extractedData s
         \<and> totalPages (snd (uploadForm e (Some f) s)) = totalPages s
         \<and> currentPage (snd (uploadForm e (Some f) s)) = currentPage s"
  using assms
  by (simp add: uploadForm_def validateImageFile_def upload_failed_def Let_def)

theorem uploadForm_invalid_file_rejected_witness:
  "snd (uploadForm quiet_env (Some demo_exe) demo_store) =
     demo_store\<lparr>error := Some ''Invalid file type. Please upload JPG, PNG, WebP images or PDF files.''\<rparr>
   \<and> snd (uploadForm quiet_env (Some demo_huge) demo_store) =
     demo_store\<lparr>error := Some ''File too large. Maximum size is 10MB.''\<rparr>"
proof -
  have a: "file_type demo_exe \<notin> set allowedTypes \<or> file_size demo_exe > maxSize"
    by (simp add: demo_exe_def allowedTypes_def)
  have b: "file_type demo_huge \<notin> set allowedTypes \<or> file_size demo_huge > maxSize"
    by (simp add: demo_huge_def maxSize_def)
  have c: "file_type demo_exe \<notin> set allowedTypes"
    by (simp add: demo_exe_def allowedTypes_def)
  have d: "\<not> file_type demo_huge \<notin> set allowedTypes"
    by (simp add: demo_huge_def allowedTypes_def)
  show ?thesis
    using uploadForm_invalid_file_rejected [OF a, of quiet_env demo_store]
      uploadForm_invalid_file_rejected [OF b, of quiet_env demo_store] c d
    by (simp add: demo_store_def)
qed

section \<open>The extraction run\<close>

text \<open>
  C1: for every multi-page document of \<open>N > 1\<close> pages, after a run in which every page
  renders and every provider call answers, the merged field collection is the
  concatenation of the pages' fields, so its size is the sum of the per-page field counts;
  every field's page tag lies in \<open>[1, N]\<close>; and the result's formTitle is the title that
  \<^verbatim>\<open>formatExtractedData\<close> reports for page 1 (the payload's \<^verbatim>\<open>formTitle\<close> when the
  payload has a \<^verbatim>\<open>fields\<close> array, \<^verbatim>\<open>Unknown Form\<close> otherwise), whatever the titles of
  pages \<open>2..N\<close> are: they do not occur in it.
\<close>

theorem extractFields_multi_page_merge:
  assumes "currentForm s = Some form" and "originalFile s = Some pdfFile" and "isPDF s"
    and "1 < totalPages s"
    and "\<forall>p. 1 \<le> p \<and> p \<le> totalPages s \<longrightarrow> page_outcome e pdfFile p = Inr (raw p)"
  shows "\<exists>d s'. extractFields e s = (Inr d, s') \<and> extractedData s' = Some d
           \<and> ed_fields d = concat (map (page_fields e raw) [1..<Suc (totalPages s)])
           \<and> length (ed_fields d) = (\<Sum>p\<leftarrow>[1..<Suc (totalPages s)]. raw_count (raw p))
           \<and> (\<forall>f \<in> set (ed_fields d). 1 \<le> page f \<and> page f \<le> totalPages s)
           \<and> ed_formTitle d =
               fd_formTitle (formatExtractedData (raw 1) 1 (toISOString e (AtFormat 1)))
           \<and> ed_formTitle d =
               (case raw 1 of
                  None \<Rightarrow> Some ''Unknown Form''
                | Some rd \<Rightarrow>
                    (case rd_fields rd of
                       None \<Rightarrow> Some ''Unknown Form''
                     | Some fs \<Rightarrow> rd_formTitle rd))"
proof -
  let ?fs = "concat (map (page_fields e raw) [1..<Suc (totalPages s)])"
  have len: "length ?fs = (\<Sum>p\<leftarrow>[1..<Suc (totalPages s)]. raw_count (raw p))"
    by (simp add: length_concat comp_def length_page_fields del: upt_Suc)
  have pages: "1 \<le> page f \<and> page f \<le> totalPages s" if "f \<in> set ?fs" for f
  proof -
    from that obtain p where "p \<in> set [1..<Suc (totalPages s)]" "f \<in> set (page_fields e raw p)"
      by (auto simp del: upt_Suc)
    then show ?thesis
      using page_of_page_fields [of f e raw p] by auto
  qed
  have title: "page_title (raw 1) =
      (case raw 1 of
         None \<Rightarrow> Some ''Unknown Form''
       | Some rd \<Rightarrow>
           (case rd_fields rd of None \<Rightarrow> Some ''Unknown Form'' | Some fs \<Rightarrow> rd_formTitle rd))"
    by (simp add: page_title_def)
  have "\<exists>d s'. extractFields e s = (Inr d, s') \<and> extractedData s' = Some d
          \<and> ed_fields d = ?fs \<and> ed_formTitle d = page_title (raw 1)"
    unfolding extractFields_all_ok [OF assms] by (simp del: upt_Suc)
  then obtain d s' where d: "extractFields e s = (Inr d, s')" "extractedData s' = Some d"
    "ed_fields d = ?fs" "ed_formTitle d = page_title (raw 1)"
    by blast
  have "length (ed_fields d) = (\<Sum>p\<leftarrow>[1..<Suc (totalPages s)]. raw_count (raw p))"
    unfolding d(3) by (rule len)
  moreover have "\<forall>f \<in> set (ed_fields d). 1 \<le> page f \<and> page f \<le> totalPages s"
    unfolding d(3) using pages by blast
  moreover have "ed_formTitle d =
      fd_formTitle (formatExtractedData (raw 1) 1 (toISOString e (AtFormat 1)))"
    unfolding d(4) by (simp only: fd_formTitle_format)
  moreover note d title [folded d(4)]
  ultimately show ?thesis by blast
qed

theorem extractFields_multi_page_merge_witness:
  "\<exists>d s'. extractFields demo_env demo_store = (Inr d, s') \<and> extractedData s' = Some d
     \<and> ed_fields d = [demo_f1, demo_f2, demo_f3]
     \<and> length (ed_fields d) = 2 + 1 + 0
     \<and> list_all (\<lambda>f. 1 \<le> page f \<and> page f \<le> 3) (ed_fields d)
     \<and> ed_formTitle d = Some ''Intake''"
proof -
  have a: "currentForm demo_store = Some demo_form" "originalFile demo_store = Some demo_pdf"
    "isPDF demo_store" "1 < totalPages demo_store"
    by (simp_all add: demo_store_def)
  have b: "\<forall>p. 1 \<le> p \<and> p \<le> totalPages demo_store \<longrightarrow>
             page_outcome demo_env demo_pdf p = Inr (demo_raw p)"
    by (simp add: demo_page_outcome)
  have t: "totalPages demo_store = 3" by (simp add: demo_store_def)
  from extractFields_multi_page_merge [OF a b] obtain d s' where
    d: "extractFields demo_env demo_store = (Inr d, s')" "extractedData s' = Some d"
      "ed_fields d = concat (map (page_fields demo_env demo_raw) [1..<Suc (totalPages demo_store)])"
      "ed_formTitle d = (case demo_raw 1 of
                  None \<Rightarrow> Some ''Unknown Form''
                | Some rd \<Rightarrow>
                    (case rd_fields rd of
                       None \<Rightarrow> Some ''Unknown Form''
                     | Some fs \<Rightarrow> rd_formTitle rd))"
    by blast
  have f: "ed_fields d = [demo_f1, demo_f2, demo_f3]"
    unfolding d(3) t upt_1_4 using demo_page_fields [of demo_env] by simp
  have ti: "ed_formTitle d = Some ''Intake''"
    unfolding d(4) by (simp add: demo_raw_def)
  have pg: "list_all (\<lambda>f. 1 \<le> page f \<and> page f \<le> 3) (ed_fields d)"
    unfolding f by (simp add: demo_f1_def demo_f2_def demo_f3_def)
  show ?thesis
    using d(1,2) f ti pg by (intro exI [of _ d] exI [of _ s']) simp
qed


text \<open>
  C3 (as stated: the reported failure carries the originating page number). What
  \<^verbatim>\<open>extractFields\<close> reports is the provider's error rethrown as it is, its message in
  \<^verbatim>\<open>error\<close>, and \<^verbatim>\<open>processingPage\<close> reset to \<^verbatim>\<open>null\<close>. On the sample document the same
  provider error at page 1 and at page 2 gives the same thrown error, the same message and
  the same progress marker: the page cannot be read off the failure.
\<close>

theorem extractFields_failure_hides_page:
  "fst (extractFields (failing_env 1) demo_store) = Inl (Error ''Request failed with status 429'')
   \<and> fst (extractFields (failing_env 2) demo_store) = Inl (Error ''Request failed with status 429'')
   \<and> error (snd (extractFields (failing_env 1) demo_store)) = Some ''Request failed with status 429''
   \<and> error (snd (extractFields (failing_env 2) demo_store)) = Some ''Request failed with status 429''
   \<and> processingPage (snd (extractFields (failing_env 1) demo_store)) = None
   \<and> processingPage (snd (extractFields (failing_env 2) demo_store)) = None"
proof -
  have a: "currentForm demo_store = Some demo_form" "originalFile demo_store = Some demo_pdf"
    "isPDF demo_store" "1 < totalPages demo_store"
    by (simp_all add: demo_store_def)
  have k1: "(1::nat) \<le> 1" "1 \<le> totalPages demo_store"
    and k2: "(1::nat) \<le> 2" "2 \<le> totalPages demo_store"
    by (simp_all add: demo_store_def)
  have b1: "\<forall>p. 1 \<le> p \<and> p < 1 \<longrightarrow> page_outcome (failing_env 1) demo_pdf p = Inr (demo_raw p)"
    by simp
  have b2: "\<forall>p. 1 \<le> p \<and> p < 2 \<longrightarrow> page_outcome (failing_env 2) demo_pdf p = Inr (demo_raw p)"
    by (simp add: failing_page_outcome)
  have f1: "page_outcome (failing_env 1) demo_pdf 1 = Inl (Error ''Request failed with status 429'')"
    by (simp add: failing_page_outcome)
  have f2: "page_outcome (failing_env 2) demo_pdf 2 = Inl (Error ''Request failed with status 429'')"
    by (simp add: failing_page_outcome)
  show ?thesis
    unfolding extractFields_fails_at [OF a k1 b1 f1] extractFields_fails_at [OF a k2 b2 f2]
    by simp
qed


text \<open>
  C3 (amended): for every multi-page run in which pages \<open>1..k-1\<close> succeed and the
  provider call for page \<open>k\<close> fails, the run stops with the provider's own error, rethrown
  unchanged (its kind and message; no page number is attached), and its message is stored
  in \<^verbatim>\<open>error\<close>; \<^verbatim>\<open>processing\<close> and \<^verbatim>\<open>processingPage\<close> are cleared; the extracted data
  holds exactly the fields published for pages \<open>1..k-1\<close> (it is what it was before the run
  when \<open>k = 1\<close>); and nothing of a page after \<open>k\<close> enters the outcome, which is fixed by
  the pages up to \<open>k\<close> alone.
\<close>

theorem extractFields_page_failure:
  assumes "currentForm s = Some form" and "originalFile s = Some pdfFile" and "isPDF s"
    and "1 < totalPages s" and "1 \<le> k" and "k \<le> totalPages s"
    and "\<forall>p. 1 \<le> p \<and> p < k \<longrightarrow> page_outcome e pdfFile p = Inr (raw p)"
    and "convertPDFPageToImage e pdfFile k = Inr imageBlob"
    and "extractFormFields e k (new_File imageBlob (file_name pdfFile) ''image/png'') = Inl err"
  shows "extractFields e s =
           (Inl err,
            s\<lparr>extractedData :=
                (if k = 1 then extractedData s
                 else Some \<lparr>ed_formTitle =
                              Some (or_string
                                     (fd_formTitle (formatExtractedData (raw 1) 1
                                        (toISOString e (AtFormat 1))))
                                     (or_string (case extractedData s of None \<Rightarrow> None
                                                 | Some d \<Rightarrow> ed_formTitle d) [])),
                            ed_fields = concat (map (page_fields e raw) [1..<k]),
                            ed_extractedAt = toISOString e (AtPublish (k - 1))\<rparr>),
              processing := False,
              error := Some (message err),
              processingPage := None\<rparr>)"
proof -
  have "page_outcome e pdfFile k = Inl err"
    using assms(8,9) by (simp add: page_outcome_def)
  from extractFields_fails_at [OF assms(1-7) this] show ?thesis
    by (simp add: fd_formTitle_format)
qed

theorem extractFields_page_failure_witness:
  "extractFields (failing_env 2) demo_store =
     (Inl (Error ''Request failed with status 429''),
      demo_store\<lparr>extractedData :=
                   Some \<lparr>ed_formTitle = Some ''Intake'', ed_fields = [demo_f1, demo_f2],
                         ed_extractedAt = ''2024-01-02T00:00:00.000Z''\<rparr>,
                 error := Some ''Request failed with status 429''\<rparr>)"
proof -
  have a: "currentForm demo_store = Some demo_form" "originalFile demo_store = Some demo_pdf"
    "isPDF demo_store" "1 < totalPages demo_store" "(1::nat) \<le> 2" "2 \<le> totalPages demo_store"
    by (simp_all add: demo_store_def)
  have b: "\<forall>p. 1 \<le> p \<and> p < 2 \<longrightarrow> page_outcome (failing_env 2) demo_pdf p = Inr (demo_raw p)"
    by (simp add: failing_page_outcome)
  have c: "convertPDFPageToImage (failing_env 2) demo_pdf 2 =
             Inr \<lparr>blob_type = ''image/png'', blob_size = 1002\<rparr>"
    by (simp add: convertPDFPageToImage_def failing_env_def quiet_env_def)
  have d: "extractFormFields (failing_env 2) 2
             (new_File \<lparr>blob_type = ''image/png'', blob_size = 1002\<rparr> (file_name demo_pdf)
                ''image/png'') = Inl (Error ''Request failed with status 429'')"
    by (simp add: extractFormFields_def failing_env_def quiet_env_def providers_def)
  have u: "[1..<2] = [1::nat]" by code_simp
  have at: "toISOString (failing_env 2) c = ''2024-01-02T00:00:00.000Z''" for c
    by (simp add: failing_env_def quiet_env_def)
  show ?thesis
    unfolding extractFields_page_failure [OF a b c d] u
    using demo_page_fields [of "failing_env 2"]
    by (simp add: at formatExtractedData_def demo_raw_def or_string_def demo_store_def)
qed


text \<open>
  C8: for every extraction run, a success puts a new entry (filename, field count, title,
  provider name, timestamp) in front of the history and keeps the nine most recent older
  entries, so the list never exceeds 10 entries and, when it held 10, its last and oldest
  entry is the one dropped; a failed run leaves the history as it is; hence no sequence of
  runs takes the history beyond 10 entries.
\<close>

theorem history_bounded_most_recent_first:
  "(extractFields e s = (Inr d, s') \<and> currentForm s = Some form \<longrightarrow>
      history s' =
        \<lparr>h_id = Date_now e, h_filename = file_name form, h_extractedAt = toISOString e AtHistory,
         h_fieldsCount = length (ed_fields d), h_formTitle = ed_formTitle d,
         h_provider = (case map_of providers (selectedProvider s) of
                         Some p \<Rightarrow> p_name p | None \<Rightarrow> selectedProvider s)\<rparr>
        # take 9 (history s)
      \<and> length (history s') \<le> 10
      \<and> (length (history s) = 10 \<longrightarrow> tl (history s') = butlast (history s)))
   \<and> (extractFields e s = (Inl err, s') \<longrightarrow> history s' = history s)
   \<and> (length (history s) \<le> 10 \<longrightarrow> length (history (run_extractions es s)) \<le> 10)"
proof -
  have entry: "historyEntry_of e form sel fs t =
      \<lparr>h_id = Date_now e, h_filename = file_name form, h_extractedAt = toISOString e AtHistory,
       h_fieldsCount = length fs, h_formTitle = t,
       h_provider = (case map_of providers sel of Some p \<Rightarrow> p_name p | None \<Rightarrow> sel)\<rparr>"
    for form sel fs t
    using historyEntry_provider [of e form sel fs t]
    by (simp add: historyEntry_of_def)
  have ok: "history s' = historyEntry_of e form (selectedProvider s) (ed_fields d) (ed_formTitle d)
                # take 9 (history s)"
    if "extractFields e s = (Inr d, s')" "currentForm s = Some form"
    using extractFields_history [of e s] that by simp
  have fail: "history s' = history s" if "extractFields e s = (Inl err, s')"
    using extractFields_history [of e s] that by simp
  show ?thesis
    using ok fail run_extractions_length [of s es]
    by (auto simp: entry butlast_conv_take)
qed



theorem history_bounded_most_recent_first_witness:
  "history (snd (extractFields demo_env full_store)) =
     demo_entry # map old_entry [10, 9, 8, 7, 6, 5, 4, 3, 2]
   \<and> length (history (run_extractions [demo_env, failing_env 1, demo_env] full_store)) \<le> 10"
proof -
  let ?s' = "snd (extractFields demo_env full_store)"
  have r: "fst (extractFields demo_env full_store) = Inr demo_result"
    using demo_run [where b = False and h = "map old_entry [10, 9, 8, 7, 6, 5, 4, 3, 2, 1]"
        and q = None]
    by (simp add: full_store_def demo_store_def)
  then have run: "extractFields demo_env full_store = (Inr demo_result, ?s')"
    by (simp add: prod_eq_iff)
  have form: "currentForm full_store = Some demo_form"
    by (simp add: full_store_def demo_store_def)
  have len: "length (history full_store) \<le> 10"
    by (simp add: full_store_def)
  have entry: "\<lparr>h_id = Date_now demo_env, h_filename = file_name demo_form,
         h_extractedAt = toISOString demo_env AtHistory,
         h_fieldsCount = length (ed_fields demo_result), h_formTitle = ed_formTitle demo_result,
         h_provider = (case map_of providers (selectedProvider full_store) of
                         Some p \<Rightarrow> p_name p | None \<Rightarrow> selectedProvider full_store)\<rparr> = demo_entry"
    by (simp add: demo_env_def quiet_env_def demo_form_def demo_result_def full_store_def
        demo_store_def providers_def demo_entry_def)
  have old: "take 9 (history full_store) = map old_entry [10, 9, 8, 7, 6, 5, 4, 3, 2]"
    by (simp add: full_store_def)
  show ?thesis
    using history_bounded_most_recent_first [of demo_env full_store demo_result ?s' demo_form undefined
        "[demo_env, failing_env 1, demo_env]"] run form len
    unfolding entry old by simp
qed


text \<open>
  C2 (as stated: invoking the extraction while one is already running is rejected with
  AlreadyProcessingError and starts no second run). The store has no such guard. On the
  sample store with \<^verbatim>\<open>processing\<close> already true and page 2 in progress, the call passes
  the only check, raises the flag again, and runs to a result.
\<close>

theorem extractFields_reentrant_call_runs:
  "processing busy_store
   \<and> extractFields_begin busy_store = Inr (demo_form, busy_store\<lparr>error := None\<rparr>)
   \<and> fst (extractFields demo_env busy_store) = Inr demo_result"
proof -
  have "fst (extractFields demo_env busy_store) = Inr demo_result"
    using demo_run [where b = True and h = "[]" and q = "Some 2"]
    by (simp add: busy_store_def demo_store_def)
  then show ?thesis
    by (simp add: busy_store_def demo_store_def extractFields_begin_def)
qed


text \<open>
  C2 (amended): the extraction operation is rejected at entry only when no form is
  uploaded, with the error \<^verbatim>\<open>No form uploaded\<close> and the store untouched. With a form
  loaded it is never rejected for being re-entered: called while \<^verbatim>\<open>processing\<close> is already
  true it sets the flag and starts a run, with the same outcome as a call made while the
  flag is false.
\<close>

theorem extractFields_only_guard:
  "(currentForm s = None \<longrightarrow> extractFields e s = (Inl (Error ''No form uploaded''), s))
   \<and> (currentForm s = Some form \<longrightarrow>
        extractFields_begin (s\<lparr>processing := True\<rparr>)
          = Inr (form, s\<lparr>processing := True, error := None\<rparr>)
        \<and> extractFields e (s\<lparr>processing := True\<rparr>) = extractFields e (s\<lparr>processing := False\<rparr>))"
  by (auto simp: extractFields_def extractFields_begin_def Let_def
      split: option.splits prod.splits sum.splits)

theorem extractFields_only_guard_witness:
  "extractFields demo_env empty_store = (Inl (Error ''No form uploaded''), empty_store)
   \<and> extractFields_begin (demo_store\<lparr>processing := True\<rparr>)
       = Inr (demo_form, demo_store\<lparr>processing := True, error := None\<rparr>)
   \<and> extractFields demo_env (demo_store\<lparr>processing := True\<rparr>)
       = extractFields demo_env (demo_store\<lparr>processing := False\<rparr>)"
proof -
  have a: "currentForm empty_store = None" by (simp add: empty_store_def)
  have b: "currentForm demo_store = Some demo_form" by (simp add: demo_store_def)
  show ?thesis
    using extractFields_only_guard [where s = empty_store and e = demo_env]
      extractFields_only_guard [where s = demo_store and form = demo_form and e = demo_env] a b
    by simp
qed

end
